theory Spec2Isabelle
  imports Main "HOL-Library.Word" "HOL-Library.Sublist"
begin

section \<open>Data model (package api)\<close>

text \<open>
  The Go structs of package \<open>api\<close> as records. Go strings are byte strings, so they are
  \<open>string\<close> (lists of 8-bit characters). Struct embedding (\<open>Keys\<close>, \<open>Status\<close>) is record
  extension. The fields of \<open>UpdateRequest\<close> and \<open>CreateResponse\<close> carry a suffix because
  \<open>Record\<close> already owns the plain names.
\<close>

record Keys =
  SecretAPIKey :: string
  APIKey :: string

record Status =
  Status :: string
  Message :: string

record PingResponse = Status +
  YourIP :: string

record Record =
  ID :: string
  Name :: string
  Type :: string
  Content :: string
  TTL :: string
  Prio :: string
  Notes :: string

record RecordsResponse = Status +
  Records :: "Record list"

record CreateResponse = Status +
  ID_created :: string

record UpdateRequest = Keys +
  Name_req :: string
  Type_req :: string
  Content_req :: string
  TTL_req :: string
  Prio_req :: string

type_synonym EditResponse = Status

text \<open>
  \<open>PingRequest\<close> and \<open>RecordsRequest\<close> are structs that only embed \<open>Keys\<close>. The type
  parameter \<open>Req\<close> of the request helper ranges over the three request structs; \<open>request\<close>
  is their sum, so that every request sent can be recorded in one trace.
\<close>

datatype request =
    PingRequest Keys
  | RecordsRequest Keys
  | UpdateRequest UpdateRequest


section \<open>Pure helpers of cmd/porkbun/main.go\<close>

text \<open>
  \<open>recordExists\<close> (main.go, lines 42-52): the loop over the slice, with its \<open>continue\<close> and
  its early \<open>return true\<close>. The slice elements are the records the JSON decoder built.
\<close>

fun recordExists :: "Record list \<Rightarrow> string \<Rightarrow> string \<Rightarrow> string \<Rightarrow> bool" where
  "recordExists [] typ name content = False"
| "recordExists (r # rs) typ name content =
     (if Type r \<noteq> typ then recordExists rs typ name content
      else if Name r = name \<and> Content r = content then True
      else recordExists rs typ name content)"

text \<open>\<open>dotjoin\<close> (main.go, lines 54-59).\<close>

definition dotjoin :: "string \<Rightarrow> string \<Rightarrow> string" where
  "dotjoin subdom domain = (if subdom = '''' then domain else subdom @ ''.'' @ domain)"



section \<open>The Go standard library functions the program calls\<close>

text \<open>
  The program calls a few pure functions of the Go standard library. They are not part of
  the repository; the definitions below follow the library's own algorithms, so that the
  program can be evaluated on concrete strings.
\<close>

subsection \<open>Package strings and fmt\<close>

text \<open>\<open>strings.Split(s, sep)\<close> for a one-byte separator: \<open>Split("", ",")\<close> is \<open>[""]\<close>.\<close>

fun Split :: "string \<Rightarrow> char \<Rightarrow> string list" where
  "Split [] sep = [[]]"
| "Split (c # cs) sep =
     (if c = sep then [] # Split cs sep
      else (case Split cs sep of [] \<Rightarrow> [[c]] | x # xs \<Rightarrow> (c # x) # xs))"

text \<open>
  \<open>strings.ToUpper\<close> on the bytes \<open>a\<close> to \<open>z\<close>. Bytes outside ASCII are left as they
  are: this is the library's result for every ASCII string, which is what DNS record type
  names are; the library additionally maps non-ASCII letters.
\<close>

definition upper_byte :: "char \<Rightarrow> char" where
  "upper_byte c =
     (let n = (of_char c :: nat) in if 97 \<le> n \<and> n \<le> 122 then char_of (n - 32) else c)"

definition ToUpper :: "string \<Rightarrow> string" where
  "ToUpper s = map upper_byte s"

text \<open>\<open>strings.Join(elems, sep)\<close>.\<close>

fun Join :: "string list \<Rightarrow> string \<Rightarrow> string" where
  "Join [] sep = []"
| "Join [x] sep = x"
| "Join (x # y # ys) sep = x @ sep @ Join (y # ys) sep"

subsection \<open>Package net: ParseIP and To4\<close>

text \<open>
  \<open>net.ParseIP\<close> is \<open>netip.ParseAddr\<close> followed by a conversion to the 16-byte form;
  an address with a zone is refused. \<open>ParseAddr\<close> looks for the first \<open>.\<close>, \<open>:\<close> or \<open>%\<close>
  and hands the whole string to the IPv4 or to the IPv6 parser. Bytes are natural numbers
  below 256; the accumulators of both parsers are checked against 255 and 65535 after every
  digit, so no machine integer wraps.
\<close>

type_synonym byte = nat

text \<open>The value of a decimal digit, and of a hexadecimal digit of either case.\<close>

definition digitval :: "char \<Rightarrow> nat option" where
  "digitval c = (let n = (of_char c :: nat) in if 48 \<le> n \<and> n \<le> 57 then Some (n - 48) else None)"

definition hexval :: "char \<Rightarrow> nat option" where
  "hexval c = (let n = (of_char c :: nat) in
     if 48 \<le> n \<and> n \<le> 57 then Some (n - 48)
     else if 97 \<le> n \<and> n \<le> 102 then Some (n - 97 + 10)
     else if 65 \<le> n \<and> n \<le> 70 then Some (n - 65 + 10)
     else None)"

text \<open>
  \<open>parseIPv4Fields\<close>: the loop over the bytes, with the value of the current field, the
  number of fields stored, the number of digits of the current field, and the previous byte
  (\<open>None\<close> at index 0). A field has at most a value of 255 and no leading zero; a dot
  needs a digit on both sides; there are exactly four fields.
\<close>

fun parseIPv4Fields_loop ::
  "char option \<Rightarrow> nat \<Rightarrow> nat \<Rightarrow> nat \<Rightarrow> byte list \<Rightarrow> string \<Rightarrow> byte list option" where
  "parseIPv4Fields_loop prev val pos digLen flds [] =
     (if pos < 3 then None else Some (flds[3 := val]))"
| "parseIPv4Fields_loop prev val pos digLen flds (c # cs) =
     (case digitval c of
        Some d \<Rightarrow>
          (if digLen = 1 \<and> val = 0 then None
           else if val * 10 + d > 255 then None
           else parseIPv4Fields_loop (Some c) (val * 10 + d) pos (digLen + 1) flds cs)
      | None \<Rightarrow>
          (if c = CHR ''.'' then
             (if prev = None \<or> cs = [] \<or> prev = Some (CHR ''.'') then None
              else if pos = 3 then None
              else parseIPv4Fields_loop (Some c) 0 (pos + 1) 0 (flds[pos := val]) cs)
           else None))"

definition parseIPv4Fields :: "string \<Rightarrow> byte list option" where
  "parseIPv4Fields s = parseIPv4Fields_loop None 0 0 0 [0, 0, 0, 0] s"

datatype Addr = Addr4 "byte list" | Addr6 "byte list" string

definition parseIPv4 :: "string \<Rightarrow> Addr option" where
  "parseIPv4 s = map_option Addr4 (parseIPv4Fields s)"

text \<open>
  The inner loop of \<open>parseIPv6\<close> that reads one group of hexadecimal digits: it returns
  the number of digits read, their value and the rest of the string, and fails on a fifth
  digit or on a value above 65535.
\<close>

fun hex_group :: "nat \<Rightarrow> nat \<Rightarrow> string \<Rightarrow> (nat \<times> nat \<times> string) option" where
  "hex_group off acc [] = Some (off, acc, [])"
| "hex_group off acc (c # cs) =
     (case hexval c of
        None \<Rightarrow> Some (off, acc, c # cs)
      | Some d \<Rightarrow>
          (if off > 3 then None
           else if acc * 16 + d > 65535 then None
           else hex_group (off + 1) (acc * 16 + d) cs))"

text \<open>
  One round of the main loop of \<open>parseIPv6\<close>, at byte index \<open>i\<close> of the 16-byte
  array: a parse error, a \<open>break\<close> (with the array, the position of the ellipsis, the
  index and the rest of the string), or the next round, which starts at index \<open>i + 2\<close>.
  A group followed by a dot starts the trailing dotted-quad form, parsed by
  \<open>parseIPv4Fields\<close> from the start of that group.
\<close>

datatype step6 =
    Fail6
  | Break6 "byte list" "nat option" nat string
  | Next6 "byte list" "nat option" string

definition parseIPv6_step :: "byte list \<Rightarrow> nat option \<Rightarrow> nat \<Rightarrow> string \<Rightarrow> step6" where
  "parseIPv6_step ip ellipsis i s =
     (case hex_group 0 0 s of
        None \<Rightarrow> Fail6
      | Some (off, acc, rest) \<Rightarrow>
          (if off = 0 then Fail6
           else
             (case rest of
                [] \<Rightarrow> Break6 (ip[i := acc div 256, i + 1 := acc mod 256]) ellipsis (i + 2) []
              | c # cs \<Rightarrow>
                  (if c = CHR ''.'' then
                     (if ellipsis = None \<and> i \<noteq> 12 then Fail6
                      else if i + 4 > 16 then Fail6
                      else
                        (case parseIPv4Fields s of
                           None \<Rightarrow> Fail6
                         | Some flds \<Rightarrow>
                             Break6 (take i ip @ flds @ drop (i + 4) ip) ellipsis (i + 4) []))
                   else if c \<noteq> CHR '':'' then Fail6
                   else
                     (case cs of
                        [] \<Rightarrow> Fail6
                      | d # ds \<Rightarrow>
                          (if d = CHR '':'' then
                             (if ellipsis \<noteq> None then Fail6
                              else if ds = [] then
                                Break6 (ip[i := acc div 256, i + 1 := acc mod 256]) (Some (i + 2)) (i + 2) []
                              else Next6 (ip[i := acc div 256, i + 1 := acc mod 256]) (Some (i + 2)) ds)
                           else Next6 (ip[i := acc div 256, i + 1 := acc mod 256]) ellipsis cs))))))"

function parseIPv6_loop ::
  "byte list \<Rightarrow> nat option \<Rightarrow> nat \<Rightarrow> string \<Rightarrow> (byte list \<times> nat option \<times> nat \<times> string) option" where
  "parseIPv6_loop ip ellipsis i s =
     (if \<not> i < 16 then Some (ip, ellipsis, i, s)
      else
        (case parseIPv6_step ip ellipsis i s of
           Fail6 \<Rightarrow> None
         | Break6 ip' ellipsis' i' s' \<Rightarrow> Some (ip', ellipsis', i', s')
         | Next6 ip' ellipsis' s' \<Rightarrow> parseIPv6_loop ip' ellipsis' (i + 2) s'))"
  by pat_completeness auto
termination
proof (relation "measure (\<lambda>(ip, ellipsis, i, s). 16 - i)")
  show "wf (measure (\<lambda>(ip, ellipsis, i, s). 16 - i))" by simp
next
  fix ip :: "byte list" and ellipsis :: "nat option" and i :: nat and s :: string
    and x3 x31 x32
  assume "\<not> \<not> i < 16"
  then show "((x3, x31, i + 2, x32), ip, ellipsis, i, s) \<in> measure (\<lambda>(ip, ellipsis, i, s). 16 - i)"
    by simp
qed



text \<open>The split at the first \<open>%\<close>, when there is one.\<close>

definition split_zone :: "string \<Rightarrow> (string \<times> string) option" where
  "split_zone s =
     (if CHR ''%'' \<in> set s
      then Some (takeWhile (\<lambda>c. c \<noteq> CHR ''%'') s, tl (dropWhile (\<lambda>c. c \<noteq> CHR ''%'') s))
      else None)"

text \<open>
  \<open>parseIPv6\<close>: the zone, a leading ellipsis, the loop, and the expansion of the ellipsis,
  which moves the bytes written after it to the end of the array and zeroes the gap.
\<close>

definition parseIPv6 :: "string \<Rightarrow> Addr option" where
  "parseIPv6 inp =
     (case (case split_zone inp of
              None \<Rightarrow> Some (inp, [])
            | Some (s, zone) \<Rightarrow> if zone = [] then None else Some (s, zone)) of
        None \<Rightarrow> None
      | Some (s, zone) \<Rightarrow>
          (let lead = (length s \<ge> 2 \<and> take 2 s = ''::'');
               s1 = (if lead then drop 2 s else s)
           in if lead \<and> s1 = [] then Some (Addr6 (replicate 16 0) zone)
              else
                (case parseIPv6_loop (replicate 16 0) (if lead then Some 0 else None) 0 s1 of
                   None \<Rightarrow> None
                 | Some (ip, ellipsis, i, rest) \<Rightarrow>
                     (if rest \<noteq> [] then None
                      else if i < 16 then
                        (case ellipsis of
                           None \<Rightarrow> None
                         | Some e \<Rightarrow>
                             Some (Addr6 (take e ip @ replicate (16 - i) 0 @ take (i - e) (drop e ip)) zone))
                      else if ellipsis \<noteq> None then None
                      else Some (Addr6 ip zone)))))"

text \<open>\<open>netip.ParseAddr\<close>: the first \<open>.\<close>, \<open>:\<close> or \<open>%\<close> of the string chooses the parser.\<close>

definition ParseAddr :: "string \<Rightarrow> Addr option" where
  "ParseAddr s =
     (case List.find (\<lambda>c. c = CHR ''.'' \<or> c = CHR '':'' \<or> c = CHR ''%'') s of
        None \<Rightarrow> None
      | Some c \<Rightarrow>
          (if c = CHR ''.'' then parseIPv4 s
           else if c = CHR '':'' then parseIPv6 s
           else None))"

text \<open>\<open>Addr.As16\<close> (an IPv4 address in its IPv4-mapped form) and \<open>Addr.Zone\<close>.\<close>

fun As16 :: "Addr \<Rightarrow> byte list" where
  "As16 (Addr4 b) = replicate 10 0 @ [255, 255] @ b"
| "As16 (Addr6 b z) = b"

fun Zone :: "Addr \<Rightarrow> string" where
  "Zone (Addr4 b) = []"
| "Zone (Addr6 b z) = z"

text \<open>\<open>net.ParseIP\<close>: nil (\<open>None\<close>) on a parse error and on an address with a zone.\<close>

definition ParseIP :: "string \<Rightarrow> byte list option" where
  "ParseIP s =
     (case ParseAddr s of
        None \<Rightarrow> None
      | Some addr \<Rightarrow> if Zone addr \<noteq> [] then None else Some (As16 addr))"

text \<open>
  \<open>IP.To4\<close>: a 4-byte address as it is, a 16-byte address with the prefix of an
  IPv4-mapped address (ten zero bytes, then \<open>ff ff\<close>) as its last four bytes, and nil
  otherwise.
\<close>

definition To4 :: "byte list \<Rightarrow> byte list option" where
  "To4 ip =
     (if length ip = 4 then Some ip
      else if length ip = 16 \<and> list_all (\<lambda>b. b = 0) (take 10 ip) \<and> ip ! 10 = 255 \<and> ip ! 11 = 255
      then Some (drop 12 ip)
      else None)"


section \<open>The environment\<close>

text \<open>
  Everything outside the process is a value of type \<open>world\<close>: what the network, the
  resolver, the file system and the JSON and URL parsers answer. A Go \<open>error\<close> coming from
  a library is its message text. A response body is a stream: the bytes it delivers and the
  error that ends it, if any. Deadlines are not modelled as time: a call that runs into its
  deadline is a call whose answer is an error.
\<close>

type_synonym err = string

datatype Body = Body string "err option"

record Response =
  StatusCode :: int
  StatusText :: string
  RespBody :: Body

text \<open>\<open>io.ReadAll\<close>: the bytes when the stream ends cleanly, the error otherwise.\<close>

fun ReadAll :: "Body \<Rightarrow> err + string" where
  "ReadAll (Body b None) = Inr b"
| "ReadAll (Body b (Some e)) = Inl e"

text \<open>
  The result of \<open>url.JoinPath(base, elem...)\<close> when it succeeds, kept symbolic: the base
  and the path elements given. \<open>JoinPath\<close> fails exactly when \<open>url.Parse\<close> refuses the
  base, and its result is the printed form of a parsed URL, which \<open>url.Parse\<close> accepts again.
\<close>

datatype URL = JoinPath string "string list"

record ClientConfig = Keys +
  Domain :: string

record Client =
  BaseURL :: string
  Config :: ClientConfig

record world =
  url_Parse :: "string \<Rightarrow> err option"
  http_GET :: "string \<Rightarrow> err + Response"
  http_POST :: "URL \<Rightarrow> request \<Rightarrow> err + Response"
  net_LookupHost :: "string \<Rightarrow> err + string list"
  json_PingResponse :: "Body \<Rightarrow> err + PingResponse"
  json_RecordsResponse :: "Body \<Rightarrow> err + RecordsResponse"
  json_CreateResponse :: "Body \<Rightarrow> err + CreateResponse"
  json_EditResponse :: "Body \<Rightarrow> err + EditResponse"
  os_Getenv :: "string \<Rightarrow> string"
  path_Join :: "string list \<Rightarrow> string"
  os_Open :: "string \<Rightarrow> err + string"
  json_ClientConfig :: "string \<Rightarrow> err + ClientConfig"

text \<open>
  What a run does to the outside, in order: the GET of the check URL, the POSTs of the API
  client, the lookups of the resolver.
\<close>

datatype event =
    HttpGet string
  | HttpPost URL request
  | LookupHost string

text \<open>
  A write is a POST to the edit or to the create endpoint; a ping is a POST to the ping
  endpoint; a lookup is a call of the resolver.
\<close>

fun is_write :: "event \<Rightarrow> bool" where
  "is_write (HttpPost (JoinPath base (e # es)) req) =
     (e = ''dns/editByNameType'' \<or> e = ''dns/create'')"
| "is_write ev = False"

fun is_ping :: "event \<Rightarrow> bool" where
  "is_ping (HttpPost (JoinPath base es) req) = (es = [''ping''])"
| "is_ping ev = False"

fun is_lookup :: "event \<Rightarrow> bool" where
  "is_lookup (LookupHost name) = True"
| "is_lookup ev = False"


section \<open>The API client (package porkbun)\<close>

definition PorkbunApiV3Url :: string where
  "PorkbunApiV3Url = ''https://api.porkbun.com/api/json/v3/''"

definition PorkbunApiV3Ipv4Url :: string where
  "PorkbunApiV3Ipv4Url = ''https://api-ipv4.porkbun.com/api/json/v3/''"

text \<open>The errors built with \<open>fmt.Errorf\<close>, and the text each of them prints.\<close>

datatype error =
    FailedToOpenConfig err
  | InvalidJSON err
  | CannotMarshal err
  | FailedToCreateRequest err
  | POSTFailed err
  | ResponseStatusUnreadable string err
  | ResponseStatusBody string string
  | CannotUnmarshal err

fun Error :: "error \<Rightarrow> string" where
  "Error (FailedToOpenConfig e) = ''failed to open config file: '' @ e"
| "Error (InvalidJSON e) = ''invalid JSON: '' @ e"
| "Error (CannotMarshal e) = ''cannot marshal request: '' @ e"
| "Error (FailedToCreateRequest e) = ''failed to create request: '' @ e"
| "Error (POSTFailed e) = ''POST failed: '' @ e"
| "Error (ResponseStatusUnreadable status e) =
     ''response status '' @ status @ '' (could not read response body: '' @ e @ '')''"
| "Error (ResponseStatusBody status body) =
     ''response status '' @ status @ ''. Body: '' @ body @ '')''"
| "Error (CannotUnmarshal e) = ''cannot unmarshal response: '' @ e"

text \<open>\<open>ReadClientConfig\<close> (lines 32-44).\<close>

definition ReadClientConfig :: "world \<Rightarrow> string \<Rightarrow> error + ClientConfig" where
  "ReadClientConfig w path =
     (case os_Open w path of
        Inl e \<Rightarrow> Inl (FailedToOpenConfig e)
      | Inr f \<Rightarrow>
          (case json_ClientConfig w f of
             Inl e \<Rightarrow> Inl (InvalidJSON e)
           | Inr config \<Rightarrow> Inr config))"

text \<open>\<open>NewClient\<close> (lines 46-56).\<close>

definition NewClient :: "ClientConfig \<Rightarrow> bool \<Rightarrow> Client" where
  "NewClient config useIPV4 =
     \<lparr>BaseURL = (if useIPV4 then PorkbunApiV3Ipv4Url else PorkbunApiV3Url), Config = config\<rparr>"

text \<open>\<open>Client.url\<close> (lines 58-64): a panic when the paths cannot be joined.\<close>

datatype panic = CannotJoinURLPaths string "string list"

definition url :: "world \<Rightarrow> Client \<Rightarrow> string list \<Rightarrow> panic + URL" where
  "url w c elem =
     (case url_Parse w (BaseURL c) of
        Some e \<Rightarrow> Inl (CannotJoinURLPaths (BaseURL c) elem)
      | None \<Rightarrow> Inr (JoinPath (BaseURL c) elem))"

text \<open>
  \<open>http.NewRequestWithContext\<close> with a valid method and a context that is not nil fails
  exactly when the URL does not parse.
\<close>

fun NewRequest_URL :: "world \<Rightarrow> URL \<Rightarrow> err option" where
  "NewRequest_URL w (JoinPath base elem) = url_Parse w base"

text \<open>
  \<open>doRequest\<close> (lines 66-94). The type parameters are the two arguments \<open>marshal\<close> (how
  \<open>Req\<close> is encoded, and whether that can fail) and \<open>unmarshal\<close> (the JSON decoder for
  \<open>Resp\<close>, reading the body stream). The result is the returned pair, as a sum, and the
  requests sent.
\<close>

definition doRequest ::
  "world \<Rightarrow> ('req \<Rightarrow> err + request) \<Rightarrow> (Body \<Rightarrow> err + 'resp) \<Rightarrow> URL \<Rightarrow> 'req
     \<Rightarrow> (error + 'resp) \<times> event list" where
  "doRequest w marshal unmarshal u req =
     (case marshal req of
        Inl e \<Rightarrow> (Inl (CannotMarshal e), [])
      | Inr buf \<Rightarrow>
          (case NewRequest_URL w u of
             Some e \<Rightarrow> (Inl (FailedToCreateRequest e), [])
           | None \<Rightarrow>
               (case http_POST w u buf of
                  Inl e \<Rightarrow> (Inl (POSTFailed e), [HttpPost u buf])
                | Inr response \<Rightarrow>
                    (if StatusCode response \<noteq> 200 then
                       (case ReadAll (RespBody response) of
                          Inl e \<Rightarrow>
                            (Inl (ResponseStatusUnreadable (StatusText response) e),
                             [HttpPost u buf])
                        | Inr body \<Rightarrow>
                            (Inl (ResponseStatusBody (StatusText response) body),
                             [HttpPost u buf]))
                     else
                       (case unmarshal (RespBody response) of
                          Inl e \<Rightarrow> (Inl (CannotUnmarshal e), [HttpPost u buf])
                        | Inr resp \<Rightarrow> (Inr resp, [HttpPost u buf]))))))"

text \<open>
  The result of a client method: a panic of \<open>Client.url\<close>, or what \<open>doRequest\<close> returned.
  The three request structs hold strings only, which \<open>encoding/json\<close> always encodes.
\<close>

datatype 'a result = Panicked panic | Failed error | Ok 'a

definition call ::
  "world \<Rightarrow> (Body \<Rightarrow> err + 'resp) \<Rightarrow> panic + URL \<Rightarrow> request \<Rightarrow> 'resp result \<times> event list" where
  "call w unmarshal pu req =
     (case pu of
        Inl p \<Rightarrow> (Panicked p, [])
      | Inr u \<Rightarrow>
          (case doRequest w Inr unmarshal u req of
             (Inl e, t) \<Rightarrow> (Failed e, t)
           | (Inr resp, t) \<Rightarrow> (Ok resp, t)))"

text \<open>\<open>Ping\<close> (lines 96-101).\<close>

definition Ping :: "world \<Rightarrow> Client \<Rightarrow> PingResponse result \<times> event list" where
  "Ping w c =
     call w (json_PingResponse w) (url w c [''ping''])
       (PingRequest \<lparr>SecretAPIKey = SecretAPIKey (Config c), APIKey = APIKey (Config c)\<rparr>)"

text \<open>\<open>CreateA\<close> (lines 103-112); TTL and Prio keep the zero value.\<close>

definition CreateA :: "world \<Rightarrow> Client \<Rightarrow> string \<Rightarrow> string \<Rightarrow> CreateResponse result \<times> event list" where
  "CreateA w c subdomain ipv4Address =
     call w (json_CreateResponse w) (url w c [''dns/create''])
       (UpdateRequest
          \<lparr>SecretAPIKey = SecretAPIKey (Config c), APIKey = APIKey (Config c),
           Name_req = subdomain, Type_req = ''A'', Content_req = ipv4Address,
           TTL_req = '''', Prio_req = ''''\<rparr>)"

text \<open>\<open>EditAllA\<close> (lines 114-126); only the keys and the content are set.\<close>

definition EditAllA :: "world \<Rightarrow> Client \<Rightarrow> string \<Rightarrow> string \<Rightarrow> EditResponse result \<times> event list" where
  "EditAllA w c subdomain ipv4Address =
     call w (json_EditResponse w)
       (if subdomain = ''''
        then url w c [''dns/editByNameType'', Domain (Config c), ''A'']
        else url w c [''dns/editByNameType'', Domain (Config c), ''A'', subdomain])
       (UpdateRequest
          \<lparr>SecretAPIKey = SecretAPIKey (Config c), APIKey = APIKey (Config c),
           Name_req = '''', Type_req = '''', Content_req = ipv4Address,
           TTL_req = '''', Prio_req = ''''\<rparr>)"

text \<open>\<open>RetrieveAll\<close> (lines 128-134).\<close>

definition RetrieveAll :: "world \<Rightarrow> Client \<Rightarrow> RecordsResponse result \<times> event list" where
  "RetrieveAll w c =
     call w (json_RecordsResponse w) (url w c [''dns/retrieve'', Domain (Config c)])
       (RecordsRequest \<lparr>SecretAPIKey = SecretAPIKey (Config c), APIKey = APIKey (Config c)\<rparr>)"


section \<open>The command (cmd/porkbun/main.go)\<close>

text \<open>
  The flag variables of lines 19-39 as one record; \<open>timeout\<close> is a duration and has no
  counterpart here. \<open>log.Fatalf\<close> ends the process: it is an outcome of the run, tagged
  with the call site and the values printed. A return of \<open>doDynDNSUpdate\<close> without a write is
  tagged with the check that caused it. The lines written by \<open>log.Printf\<close> on the update
  path carry no information beyond these tags and are left out.
\<close>

record flags =
  printRecords :: string
  dyndns :: bool
  ddSubdomain :: string
  ddCheckURL :: string

datatype fatal =
    CannotReadConfig error
  | CannotCreateGET string err
  | PingFailed error
  | LookupFailed string err
  | NotAValidIPv4 string
  | UpdateFailed error
  | RetrieveAllFailed error

datatype skip = URLCheckSuccessful | MatchesPublicDNS | RecordAlreadyExists

datatype outcome = NoUpdate skip | Updated | Fatal fatal | Panic panic

text \<open>The test of lines 124-125, negated: \<open>ip != nil && ip.To4() != nil\<close>.\<close>

definition is_IPv4 :: "string \<Rightarrow> bool" where
  "is_IPv4 s = (case ParseIP s of None \<Rightarrow> False | Some ip \<Rightarrow> To4 ip \<noteq> None)"

text \<open>
  \<open>doDynDNSUpdate\<close> (lines 61-133). The first \<open>case\<close> is the block of lines 68-89: it
  ends the run (a fatal error, or the return of line 86) or falls through. The loop of
  lines 108-113 returns at the first address equal to the current IP, that is, when the
  current IP is among the addresses.
\<close>

definition doDynDNSUpdate :: "flags \<Rightarrow> world \<Rightarrow> Client \<Rightarrow> Record list \<Rightarrow> outcome \<times> event list" where
  "doDynDNSUpdate fl w client records =
     (case (if ddCheckURL fl \<noteq> '''' then
              (case url_Parse w (ddCheckURL fl) of
                 Some e \<Rightarrow> (Some (Fatal (CannotCreateGET (ddCheckURL fl) e)), [])
               | None \<Rightarrow>
                   (case http_GET w (ddCheckURL fl) of
                      Inr r \<Rightarrow> (Some (NoUpdate URLCheckSuccessful), [HttpGet (ddCheckURL fl)])
                    | Inl e \<Rightarrow> (None, [HttpGet (ddCheckURL fl)])))
            else (None, [])) of
        (Some out, t0) \<Rightarrow> (out, t0)
      | (None, t0) \<Rightarrow>
          (case Ping w client of
             (Panicked p, t1) \<Rightarrow> (Panic p, t0 @ t1)
           | (Failed e, t1) \<Rightarrow> (Fatal (PingFailed e), t0 @ t1)
           | (Ok ping, t1) \<Rightarrow>
               (let currentIP = YourIP ping;
                    domain = dotjoin (ddSubdomain fl) (Domain (Config client))
                in case net_LookupHost w domain of
                     Inl e \<Rightarrow> (Fatal (LookupFailed domain e), t0 @ t1 @ [LookupHost domain])
                   | Inr addrs \<Rightarrow>
                       (if currentIP \<in> set addrs then
                          (NoUpdate MatchesPublicDNS, t0 @ t1 @ [LookupHost domain])
                        else if recordExists records ''A'' domain currentIP then
                          (NoUpdate RecordAlreadyExists, t0 @ t1 @ [LookupHost domain])
                        else if \<not> is_IPv4 currentIP then
                          (Fatal (NotAValidIPv4 currentIP), t0 @ t1 @ [LookupHost domain])
                        else
                          (case EditAllA w client (ddSubdomain fl) currentIP of
                             (Panicked p, t2) \<Rightarrow>
                               (Panic p, t0 @ t1 @ [LookupHost domain] @ t2)
                           | (Failed e, t2) \<Rightarrow>
                               (Fatal (UpdateFailed e), t0 @ t1 @ [LookupHost domain] @ t2)
                           | (Ok r, t2) \<Rightarrow>
                               (Updated, t0 @ t1 @ [LookupHost domain] @ t2))))))"

text \<open>\<open>Record.String\<close> (package api, lines 76-78).\<close>

definition Record_String :: "Record \<Rightarrow> string" where
  "Record_String r =
     Name r @ '' '' @ Type r @ '' '' @ Content r @ '' '' @ TTL r @ '' '' @ Prio r
       @ '' ('' @ ID r @ '')''"

definition newline :: string where
  "newline = [CHR 0x0A]"

text \<open>
  \<open>doPrintRecords\<close> (lines 135-162). The loop of lines 141-147 fills the flag \<open>includeAll\<close>
  and the map \<open>include\<close>; reading a key the map does not hold gives \<open>false\<close>. The loop of
  lines 155-159 collects the lines. The result is an abort, or the text logged together
  with the slice returned.
\<close>

fun include_loop :: "string list \<Rightarrow> bool \<Rightarrow> (string \<rightharpoonup> bool) \<Rightarrow> bool \<times> (string \<rightharpoonup> bool)" where
  "include_loop [] includeAll include = (includeAll, include)"
| "include_loop (incl # rest) includeAll include =
     (if incl = ''all'' then include_loop rest True include
      else include_loop rest includeAll (include(ToUpper incl \<mapsto> True)))"

definition map_index :: "(string \<rightharpoonup> bool) \<Rightarrow> string \<Rightarrow> bool" where
  "map_index include k = (case include k of None \<Rightarrow> False | Some b \<Rightarrow> b)"

fun recordLines_loop :: "bool \<Rightarrow> (string \<rightharpoonup> bool) \<Rightarrow> Record list \<Rightarrow> string list \<Rightarrow> string list" where
  "recordLines_loop includeAll include [] recordLines = recordLines"
| "recordLines_loop includeAll include (r # rs) recordLines =
     (if includeAll \<or> map_index include (Type r)
      then recordLines_loop includeAll include rs (recordLines @ [Record_String r])
      else recordLines_loop includeAll include rs recordLines)"

definition doPrintRecords ::
  "flags \<Rightarrow> world \<Rightarrow> Client \<Rightarrow> (outcome + string \<times> Record list) \<times> event list" where
  "doPrintRecords fl w client =
     (case include_loop (Split (printRecords fl) (CHR '','')) False Map.empty of
        (includeAll, include) \<Rightarrow>
          (case RetrieveAll w client of
             (Panicked p, t) \<Rightarrow> (Inl (Panic p), t)
           | (Failed e, t) \<Rightarrow> (Inl (Fatal (RetrieveAllFailed e)), t)
           | (Ok recordsResp, t) \<Rightarrow>
               (let records = Records recordsResp;
                    recordLines = recordLines_loop includeAll include records []
                in (Inr (''Your records:'' @ newline @ Join recordLines newline, records), t))))"

text \<open>
  \<open>main\<close> (lines 164-184): how the run ended (\<open>None\<close>: \<open>main\<close> returned without running
  the update), the listings logged, and the trace. The nil slice is the empty list.
\<close>

definition main :: "flags \<Rightarrow> world \<Rightarrow> outcome option \<times> string list \<times> event list" where
  "main fl w =
     (let configFile = path_Join w [os_Getenv w ''HOME'', ''.porkbungo'']
      in case ReadClientConfig w configFile of
           Inl e \<Rightarrow> (Some (Fatal (CannotReadConfig e)), [], [])
         | Inr config \<Rightarrow>
             (let client = NewClient config True
              in case (if printRecords fl \<noteq> ''''
                       then (case doPrintRecords fl w client of
                               (Inl out, t) \<Rightarrow> (Inl out, t)
                             | (Inr (listing, rs), t) \<Rightarrow> (Inr ([listing], rs), t))
                       else (Inr ([], []), [])) of
                   (Inl out, t) \<Rightarrow> (Some out, [], t)
                 | (Inr (listings, records), t) \<Rightarrow>
                     (if dyndns fl
                      then (case doDynDNSUpdate fl w client records of
                              (out, t') \<Rightarrow> (Some out, listings, t @ t'))
                      else (None, listings, t))))"

text \<open>The writes, pings and lookups of a trace.\<close>

definition writes :: "event list \<Rightarrow> event list" where
  "writes t = filter is_write t"


section \<open>Vocabulary of the properties\<close>

text \<open>
  The two requests of the update path as events: the ping, and the edit of the A records of
  a name (the domain, the type \<open>A\<close> and, when it is not empty, the subdomain in the path;
  the new content in the body).
\<close>

definition ping_request :: "Client \<Rightarrow> event" where
  "ping_request c =
     HttpPost (JoinPath (BaseURL c) [''ping''])
       (PingRequest \<lparr>SecretAPIKey = SecretAPIKey (Config c), APIKey = APIKey (Config c)\<rparr>)"

definition edit_request :: "Client \<Rightarrow> string \<Rightarrow> string \<Rightarrow> event" where
  "edit_request c subdomain content =
     HttpPost
       (JoinPath (BaseURL c)
          ([''dns/editByNameType'', Domain (Config c), ''A'']
             @ (if subdomain = '''' then [] else [subdomain])))
       (UpdateRequest
          \<lparr>SecretAPIKey = SecretAPIKey (Config c), APIKey = APIKey (Config c),
           Name_req = '''', Type_req = '''', Content_req = content,
           TTL_req = '''', Prio_req = ''''\<rparr>)"

text \<open>
  The health check is inconclusive when no check URL is configured, or when the GET was
  sent and failed in transport. The trace it leaves is then empty, or the one GET.
\<close>

definition check_inconclusive :: "flags \<Rightarrow> world \<Rightarrow> bool" where
  "check_inconclusive fl w \<longleftrightarrow>
     ddCheckURL fl = '''' \<or>
     (url_Parse w (ddCheckURL fl) = None \<and> isl (http_GET w (ddCheckURL fl)))"

definition check_trace :: "flags \<Rightarrow> event list" where
  "check_trace fl = (if ddCheckURL fl = '''' then [] else [HttpGet (ddCheckURL fl)])"

text \<open>How the run ends after the call of \<open>EditAllA\<close> (lines 128-132).\<close>

definition edit_outcome :: "EditResponse result \<Rightarrow> outcome" where
  "edit_outcome res =
     (case res of Panicked p \<Rightarrow> Panic p | Failed e \<Rightarrow> Fatal (UpdateFailed e) | Ok r \<Rightarrow> Updated)"

text \<open>
  Two runs of the update procedure in succession, each in the environment and with the
  snapshot it finds. Nothing has changed between the runs when the second environment and
  snapshot are the first ones.
\<close>

definition run_twice ::
  "flags \<Rightarrow> Client \<Rightarrow> world \<Rightarrow> Record list \<Rightarrow> world \<Rightarrow> Record list
     \<Rightarrow> (outcome \<times> event list) \<times> (outcome \<times> event list)" where
  "run_twice fl c w1 records1 w2 records2 =
     (doDynDNSUpdate fl w1 c records1, doDynDNSUpdate fl w2 c records2)"

text \<open>
  The failure condition of the specification for a remote call: the transport fails, or the
  status is not 200, or the body cannot be decoded.
\<close>

definition request_fails :: "world \<Rightarrow> (Body \<Rightarrow> err + 'resp) \<Rightarrow> URL \<Rightarrow> request \<Rightarrow> bool" where
  "request_fails w unmarshal u req =
     (case http_POST w u req of
        Inl e \<Rightarrow> True
      | Inr r \<Rightarrow> StatusCode r \<noteq> 200 \<or> isl (unmarshal (RespBody r)))"


section \<open>Example environments\<close>

text \<open>
  A client for \<open>example.com\<close>, and an environment in which every URL parses, the check URL
  answers \<open>get\<close>, the API answers every POST with status 200, the ping response decodes to
  the address \<open>ip\<close>, the record listing decodes to \<open>rs\<close>, and the resolver knows the
  addresses \<open>addrs\<close> of \<open>www.example.com\<close> and no other name.
\<close>

definition example_client :: Client where
  "example_client =
     \<lparr>BaseURL = PorkbunApiV3Ipv4Url,
      Config = \<lparr>SecretAPIKey = ''sk1'', APIKey = ''pk1'', Domain = ''example.com''\<rparr>\<rparr>"

definition ok_response :: Response where
  "ok_response = \<lparr>StatusCode = 200, StatusText = ''200 OK'', RespBody = Body ''{}'' None\<rparr>"

definition example_world :: "err + Response \<Rightarrow> string \<Rightarrow> Record list \<Rightarrow> string list \<Rightarrow> world" where
  "example_world get ip rs addrs =
     \<lparr>url_Parse = (\<lambda>s. None),
      http_GET = (\<lambda>s. get),
      http_POST = (\<lambda>u req. Inr ok_response),
      net_LookupHost =
        (\<lambda>name. if name = ''www.example.com'' then Inr addrs else Inl ''no such host''),
      json_PingResponse = (\<lambda>b. Inr \<lparr>Status = ''SUCCESS'', Message = '''', YourIP = ip\<rparr>),
      json_RecordsResponse = (\<lambda>b. Inr \<lparr>Status = ''SUCCESS'', Message = '''', Records = rs\<rparr>),
      json_CreateResponse =
        (\<lambda>b. Inr \<lparr>Status = ''SUCCESS'', Message = '''', ID_created = ''1''\<rparr>),
      json_EditResponse = (\<lambda>b. Inr \<lparr>Status = ''SUCCESS'', Message = ''''\<rparr>),
      os_Getenv = (\<lambda>name. ''/home/u''),
      path_Join = (\<lambda>elem. ''/home/u/.porkbungo''),
      os_Open = (\<lambda>path. Inr ''{}''),
      json_ClientConfig =
        (\<lambda>f. Inr \<lparr>SecretAPIKey = ''sk1'', APIKey = ''pk1'', Domain = ''example.com''\<rparr>)\<rparr>"

definition example_flags :: "string \<Rightarrow> string \<Rightarrow> flags" where
  "example_flags print checkurl =
     \<lparr>printRecords = print, dyndns = True, ddSubdomain = ''www'', ddCheckURL = checkurl\<rparr>"

definition refused :: "err + Response" where
  "refused = Inl ''connection refused''"


text \<open>
  The A record of \<open>www.example.com\<close> as the API lists it, and two answers of the API with a
  status other than 200: one whose body arrives whole, and one whose body stream breaks.
\<close>

definition www_A_record :: "string \<Rightarrow> Record" where
  "www_A_record ip =
     \<lparr>ID = ''7'', Name = ''www.example.com'', Type = ''A'', Content = ip,
      TTL = ''600'', Prio = ''0'', Notes = ''''\<rparr>"

definition server_error :: Response where
  "server_error =
     \<lparr>StatusCode = 500, StatusText = ''500 Internal Server Error'',
      RespBody = Body ''rate limit exceeded'' None\<rparr>"

definition bad_gateway :: Response where
  "bad_gateway =
     \<lparr>StatusCode = 502, StatusText = ''502 Bad Gateway'',
      RespBody = Body ''<html>502</html>'' (Some ''unexpected EOF'')\<rparr>"


section \<open>Lemmas on the client\<close>

lemma doRequest_trace:
  "NewRequest_URL w u = None \<Longrightarrow> snd (doRequest w Inr unmarshal u req) = [HttpPost u req]"
  by (simp add: doRequest_def split: sum.splits)

lemma call_url_ok:
  assumes "url_Parse w (BaseURL c) = None"
  shows "snd (call w unmarshal (url w c elem) req) = [HttpPost (JoinPath (BaseURL c) elem) req]"
    and "fst (call w unmarshal (url w c elem) req) \<noteq> Panicked p"
proof -
  have u: "url w c elem = Inr (JoinPath (BaseURL c) elem)"
    using assms by (simp add: url_def)
  have n: "NewRequest_URL w (JoinPath (BaseURL c) elem) = None"
    using assms by simp
  from doRequest_trace [OF n, of unmarshal req]
  show "snd (call w unmarshal (url w c elem) req) = [HttpPost (JoinPath (BaseURL c) elem) req]"
    by (auto simp: call_def u split: prod.splits sum.splits)
  show "fst (call w unmarshal (url w c elem) req) \<noteq> Panicked p"
    by (simp add: call_def u split: prod.splits sum.splits)
qed

lemma call_url_panic:
  "url_Parse w (BaseURL c) = Some e \<Longrightarrow>
     call w unmarshal (url w c elem) req = (Panicked (CannotJoinURLPaths (BaseURL c) elem), [])"
  by (simp add: call_def url_def)

lemma Ping_Ok:
  assumes "Ping w c = (Ok ping, t)"
  shows "url_Parse w (BaseURL c) = None" and "t = [ping_request c]"
proof -
  show p: "url_Parse w (BaseURL c) = None"
  proof (cases "url_Parse w (BaseURL c)")
    case None then show ?thesis .
  next
    case (Some e)
    from call_url_panic [OF Some, of "json_PingResponse w" "[''ping'']"] assms
    show ?thesis by (simp add: Ping_def)
  qed
  have "snd (Ping w c) = [ping_request c]"
    unfolding Ping_def ping_request_def by (rule call_url_ok(1) [OF p])
  with assms show "t = [ping_request c]" by simp
qed

lemma EditAllA_trace:
  assumes "url_Parse w (BaseURL c) = None"
  shows "snd (EditAllA w c subdomain content) = [edit_request c subdomain content]"
    and "fst (EditAllA w c subdomain content) \<noteq> Panicked p"
  using call_url_ok [OF assms, of "json_EditResponse w"]
  by (simp_all add: EditAllA_def edit_request_def)


section \<open>Lemmas on the update procedure\<close>

lemma recordExists_set:
  "recordExists R typ name content \<longleftrightarrow>
     (\<exists>r \<in> set R. Type r = typ \<and> Name r = name \<and> Content r = content)"
  by (induction R) auto

lemma check_inconclusive_block:
  "check_inconclusive fl w \<Longrightarrow>
     (if ddCheckURL fl \<noteq> '''' then
        (case url_Parse w (ddCheckURL fl) of
           Some e \<Rightarrow> (Some (Fatal (CannotCreateGET (ddCheckURL fl) e)), [])
         | None \<Rightarrow>
             (case http_GET w (ddCheckURL fl) of
                Inr r \<Rightarrow> (Some (NoUpdate URLCheckSuccessful), [HttpGet (ddCheckURL fl)])
              | Inl e \<Rightarrow> (None, [HttpGet (ddCheckURL fl)])))
      else (None, [])) = (None, check_trace fl)"
  by (auto simp: check_inconclusive_def check_trace_def split: sum.splits)

text \<open>
  The run once the health check was inconclusive, the ping succeeded and the resolver
  answered: the three short-circuit exits in their order, then the write.
\<close>

lemma doDynDNSUpdate_after_lookup:
  assumes chk: "check_inconclusive fl w"
    and ping: "Ping w c = (Ok ping, tp)"
    and look: "net_LookupHost w (dotjoin (ddSubdomain fl) (Domain (Config c))) = Inr addrs"
  shows "doDynDNSUpdate fl w c records =
     (let ip = YourIP ping; domain = dotjoin (ddSubdomain fl) (Domain (Config c));
          pre = check_trace fl @ [ping_request c, LookupHost domain]
      in if ip \<in> set addrs then (NoUpdate MatchesPublicDNS, pre)
         else if recordExists records ''A'' domain ip then (NoUpdate RecordAlreadyExists, pre)
         else if \<not> is_IPv4 ip then (Fatal (NotAValidIPv4 ip), pre)
         else (edit_outcome (fst (EditAllA w c (ddSubdomain fl) ip)),
               pre @ [edit_request c (ddSubdomain fl) ip]))"
proof -
  note p = Ping_Ok [OF ping]
  have e: "EditAllA w c (ddSubdomain fl) (YourIP ping) =
      (fst (EditAllA w c (ddSubdomain fl) (YourIP ping)),
       [edit_request c (ddSubdomain fl) (YourIP ping)])"
    using EditAllA_trace(1) [OF p(1), of "ddSubdomain fl" "YourIP ping"]
    by (metis prod.collapse)
  show ?thesis
    unfolding doDynDNSUpdate_def check_inconclusive_block [OF chk]
    apply (simp add: ping look p(2) Let_def)
    apply (subst e)
    apply (simp add: edit_outcome_def split: result.splits)
    done
qed

lemma writes_check_trace: "writes (check_trace fl) = []"
  by (simp add: writes_def check_trace_def)

lemma writes_append: "writes (xs @ ys) = writes xs @ writes ys"
  by (simp add: writes_def)

lemma writes_ping_lookup: "writes [ping_request c, LookupHost d] = []"
  by (simp add: writes_def ping_request_def)

lemma writes_edit: "writes [edit_request c s ip] = [edit_request c s ip]"
  by (simp add: writes_def edit_request_def)


section \<open>Properties of the pure helpers\<close>

text \<open>
  C3. \<open>recordExists\<close> answers true exactly when some record of the list has the given
  type, name and content, compared as plain strings (no case folding, no trimming, no
  trailing-dot handling); on the empty list it answers false.
\<close>

theorem recordExists_iff:
  "(recordExists R typ name content \<longleftrightarrow>
      (\<exists>r \<in> set R. Type r = typ \<and> Name r = name \<and> Content r = content))
   \<and> recordExists [] typ name content = False"
  by (simp add: recordExists_set)

theorem recordExists_iff_witness:
  "recordExists
     [\<lparr>ID = ''1'', Name = ''www.example.com'', Type = ''AAAA'', Content = ''1.2.3.4'',
        TTL = ''600'', Prio = ''0'', Notes = ''''\<rparr>,
      \<lparr>ID = ''2'', Name = ''www.example.com'', Type = ''A'', Content = ''1.2.3.4'',
        TTL = ''600'', Prio = ''0'', Notes = ''''\<rparr>]
     ''A'' ''www.example.com'' ''1.2.3.4''
   \<and> \<not> recordExists
     [\<lparr>ID = ''2'', Name = ''www.example.com'', Type = ''A'', Content = ''1.2.3.4'',
        TTL = ''600'', Prio = ''0'', Notes = ''''\<rparr>]
     ''a'' ''www.example.com'' ''1.2.3.4''
   \<and> \<not> recordExists
     [\<lparr>ID = ''2'', Name = ''www.example.com'', Type = ''A'', Content = ''1.2.3.4'',
        TTL = ''600'', Prio = ''0'', Notes = ''''\<rparr>]
     ''A'' ''www.example.com.'' ''1.2.3.4''"
  using recordExists_iff
    [of "[\<lparr>ID = ''1'', Name = ''www.example.com'', Type = ''AAAA'', Content = ''1.2.3.4'',
            TTL = ''600'', Prio = ''0'', Notes = ''''\<rparr>,
          \<lparr>ID = ''2'', Name = ''www.example.com'', Type = ''A'', Content = ''1.2.3.4'',
            TTL = ''600'', Prio = ''0'', Notes = ''''\<rparr>]"
        "''A''" "''www.example.com''" "''1.2.3.4''"]
    recordExists_iff
    [of "[\<lparr>ID = ''2'', Name = ''www.example.com'', Type = ''A'', Content = ''1.2.3.4'',
            TTL = ''600'', Prio = ''0'', Notes = ''''\<rparr>]"
        "''a''" "''www.example.com''" "''1.2.3.4''"]
    recordExists_iff
    [of "[\<lparr>ID = ''2'', Name = ''www.example.com'', Type = ''A'', Content = ''1.2.3.4'',
            TTL = ''600'', Prio = ''0'', Notes = ''''\<rparr>]"
        "''A''" "''www.example.com.''" "''1.2.3.4''"]
  by simp

text \<open>
  C8. Joining the empty subdomain with a domain gives the domain; joining a non-empty
  subdomain gives subdomain, a dot, domain. The two instances of the specification follow.
\<close>

theorem dotjoin_spec:
  "dotjoin '''' d = d
   \<and> (s \<noteq> '''' \<longrightarrow> dotjoin s d = s @ ''.'' @ d)
   \<and> dotjoin '''' ''example.com'' = ''example.com''
   \<and> dotjoin ''www'' ''example.com'' = ''www.example.com''"
  by (simp add: dotjoin_def)

theorem dotjoin_spec_witness:
  "''api'' \<noteq> '''' \<and> dotjoin ''api'' ''example.org'' = ''api.example.org''"
  using dotjoin_spec [of "''example.org''" "''api''"] by simp


section \<open>The example environments, evaluated\<close>

lemma example_Ping:
  "Ping (example_world get ip rs addrs) example_client =
     (Ok \<lparr>Status = ''SUCCESS'', Message = '''', YourIP = ip\<rparr>, [ping_request example_client])"
  by (simp add: Ping_def call_def url_def doRequest_def example_world_def ok_response_def
      ping_request_def)

lemma example_lookup:
  "net_LookupHost (example_world get ip rs addrs)
     (dotjoin (ddSubdomain (example_flags print checkurl)) (Domain (Config example_client)))
   = Inr addrs"
  by (simp add: example_world_def example_flags_def example_client_def dotjoin_def)

lemma example_check:
  "check_inconclusive (example_flags print checkurl) (example_world refused ip rs addrs)"
  by (simp add: check_inconclusive_def example_world_def refused_def)

lemma not_write_ping [simp]: "\<not> is_write (ping_request c)"
  by (simp add: ping_request_def)

lemma is_write_edit [simp]: "is_write (edit_request c s ip)"
  by (simp add: edit_request_def)


lemma example_EditAllA:
  "EditAllA (example_world get ip rs addrs) example_client subdomain content =
     (Ok \<lparr>Status = ''SUCCESS'', Message = ''''\<rparr>, [edit_request example_client subdomain content])"
  by (simp add: EditAllA_def call_def url_def doRequest_def example_world_def ok_response_def
      edit_request_def)

lemma example_no_check:
  "check_inconclusive (example_flags print '''') w"
  by (simp add: check_inconclusive_def example_flags_def)

lemma example_fields:
  "ddSubdomain (example_flags print checkurl) = ''www''"
  "ddCheckURL (example_flags print checkurl) = checkurl"
  "printRecords (example_flags print checkurl) = print"
  "dyndns (example_flags print checkurl)"
  "Domain (Config example_client) = ''example.com''"
  by (simp_all add: example_flags_def example_client_def)

text \<open>
  The address parsers on concrete strings. The simplifier computes with binary numerals;
  the two lemmas below let it step through a list at a numeral position.
\<close>

lemma replicate_numeral: "replicate (numeral k) x = x # replicate (pred_numeral k) x"
  by (simp add: numeral_eq_Suc)

lemma list_update_Cons_numeral: "(x # xs)[numeral k := y] = x # xs[pred_numeral k := y]"
  by (simp add: numeral_eq_Suc)

lemmas ParseIP_eval =
  ParseIP_def ParseAddr_def parseIPv4_def parseIPv4Fields_def parseIPv6_def split_zone_def
  parseIPv6_step_def hexval_def digitval_def Let_def replicate_numeral list_update_Cons_numeral

lemma ParseIP_examples:
  "ParseIP ''1.2.3.4'' = Some [0, 0, 0, 0, 0, 0, 0, 0, 0, 0, 255, 255, 1, 2, 3, 4]"
  "ParseIP ''300.1.1.1'' = None"
  "ParseIP ''01.2.3.4'' = None"
  "ParseIP ''1.2.3'' = None"
  "ParseIP ''2001:db8::1'' = Some [32, 1, 13, 184, 0, 0, 0, 0, 0, 0, 0, 0, 0, 0, 0, 1]"
  "ParseIP ''::ffff:1.2.3.4'' = Some [0, 0, 0, 0, 0, 0, 0, 0, 0, 0, 255, 255, 1, 2, 3, 4]"
  by (simp_all add: ParseIP_eval)

lemma is_IPv4_examples:
  "is_IPv4 ''1.2.3.4''" "\<not> is_IPv4 ''300.1.1.1''" "\<not> is_IPv4 ''2001:db8::1''"
  "is_IPv4 ''::ffff:1.2.3.4''" "\<not> is_IPv4 ''01.2.3.4''" "\<not> is_IPv4 ''1.2.3''"
  by (simp_all add: is_IPv4_def ParseIP_examples To4_def)


section \<open>Properties of the update procedure\<close>

text \<open>
  C1. When the health check is inconclusive (not configured, or failed in transport), the
  ping succeeds, the resolver answers for the fully-qualified name with no address equal to
  the current public IP, the snapshot holds no A record with that name and that content, and
  the current IP passes the IPv4 test, the run sends exactly one write: the edit of the A
  records, with the configured domain and subdomain in its path and the current IP as its
  content. The whole trace is the check (if any), the ping, the lookup and that write.
\<close>

theorem update_issues_one_write:
  assumes "check_inconclusive fl w"
    and "Ping w c = (Ok ping, tp)"
    and "net_LookupHost w (dotjoin (ddSubdomain fl) (Domain (Config c))) = Inr addrs"
    and "YourIP ping \<notin> set addrs"
    and "\<not> (\<exists>r \<in> set records. Type r = ''A''
            \<and> Name r = dotjoin (ddSubdomain fl) (Domain (Config c))
            \<and> Content r = YourIP ping)"
    and "is_IPv4 (YourIP ping)"
  shows "writes (snd (doDynDNSUpdate fl w c records))
           = [edit_request c (ddSubdomain fl) (YourIP ping)]
       \<and> snd (doDynDNSUpdate fl w c records)
           = check_trace fl
             @ [ping_request c, LookupHost (dotjoin (ddSubdomain fl) (Domain (Config c))),
                edit_request c (ddSubdomain fl) (YourIP ping)]"
proof -
  have "\<not> recordExists records ''A'' (dotjoin (ddSubdomain fl) (Domain (Config c))) (YourIP ping)"
    using assms(5) unfolding recordExists_set .
  with assms(4,6) show ?thesis
    by (simp add: doDynDNSUpdate_after_lookup [OF assms(1-3)] Let_def writes_def check_trace_def)
qed

theorem update_issues_one_write_witness:
  "writes (snd (doDynDNSUpdate (example_flags '''' ''http://www.example.com/'')
                  (example_world refused ''1.2.3.4'' [] [''5.6.7.8'']) example_client []))
     = [HttpPost
          (JoinPath ''https://api-ipv4.porkbun.com/api/json/v3/''
             [''dns/editByNameType'', ''example.com'', ''A'', ''www''])
          (UpdateRequest
             \<lparr>SecretAPIKey = ''sk1'', APIKey = ''pk1'', Name_req = '''', Type_req = '''',
              Content_req = ''1.2.3.4'', TTL_req = '''', Prio_req = ''''\<rparr>)]"
proof -
  let ?fl = "example_flags '''' ''http://www.example.com/''"
  let ?w = "example_world refused ''1.2.3.4'' [] [''5.6.7.8'']"
  let ?ping = "\<lparr>Status = ''SUCCESS'', Message = '''', YourIP = ''1.2.3.4''\<rparr>"
  have h1: "check_inconclusive ?fl ?w" by (rule example_check)
  have h2: "Ping ?w example_client = (Ok ?ping, [ping_request example_client])"
    by (rule example_Ping)
  have h3: "net_LookupHost ?w (dotjoin (ddSubdomain ?fl) (Domain (Config example_client)))
              = Inr [''5.6.7.8'']"
    by (rule example_lookup)
  have h4: "YourIP ?ping \<notin> set [''5.6.7.8'']" by simp
  have h5: "\<not> (\<exists>r \<in> set []. Type r = ''A''
            \<and> Name r = dotjoin (ddSubdomain ?fl) (Domain (Config example_client))
            \<and> Content r = YourIP ?ping)" by simp
  have "is_IPv4 ''1.2.3.4''" by (rule is_IPv4_examples(1))
  then have h6: "is_IPv4 (YourIP ?ping)" by simp
  from update_issues_one_write [OF h1 h2 h3 h4 h5 h6, THEN conjunct1]
  show ?thesis
    by (simp add: edit_request_def example_client_def example_flags_def PorkbunApiV3Ipv4Url_def)
qed

text \<open>
  C4. When a check URL is configured and the GET to it returns a response, whatever its
  status code, the run ends without update and its trace is that one GET: no ping, no
  lookup, no write.
\<close>

theorem check_url_reachable_skips:
  assumes "ddCheckURL fl \<noteq> ''''"
    and "url_Parse w (ddCheckURL fl) = None"
    and "http_GET w (ddCheckURL fl) = Inr r"
  shows "doDynDNSUpdate fl w c records = (NoUpdate URLCheckSuccessful, [HttpGet (ddCheckURL fl)])
       \<and> filter is_ping (snd (doDynDNSUpdate fl w c records)) = []
       \<and> filter is_lookup (snd (doDynDNSUpdate fl w c records)) = []
       \<and> writes (snd (doDynDNSUpdate fl w c records)) = []"
  using assms by (simp add: doDynDNSUpdate_def writes_def)

theorem check_url_reachable_skips_witness:
  "doDynDNSUpdate (example_flags '''' ''http://www.example.com/'')
     (example_world (Inr \<lparr>StatusCode = 503, StatusText = ''503 Service Unavailable'',
                          RespBody = Body '''' None\<rparr>) ''1.2.3.4'' [] [''5.6.7.8''])
     example_client []
   = (NoUpdate URLCheckSuccessful, [HttpGet ''http://www.example.com/''])"
proof -
  let ?fl = "example_flags '''' ''http://www.example.com/''"
  let ?r = "\<lparr>StatusCode = 503, StatusText = ''503 Service Unavailable'', RespBody = Body '''' None\<rparr>"
  let ?w = "example_world (Inr ?r) ''1.2.3.4'' [] [''5.6.7.8'']"
  have h1: "ddCheckURL ?fl \<noteq> ''''" by (simp add: example_flags_def)
  have h2: "url_Parse ?w (ddCheckURL ?fl) = None" by (simp add: example_world_def)
  have h3: "http_GET ?w (ddCheckURL ?fl) = Inr ?r" by (simp add: example_world_def)
  from check_url_reachable_skips [OF h1 h2 h3, of example_client "[]"]
  show ?thesis by (simp add: example_flags_def)
qed

text \<open>
  C5. When the health check is inconclusive, the ping succeeds and the resolver returns at
  least one address equal to the current public IP, the run ends without update after the
  lookup, and sends no write.
\<close>

theorem dns_match_skips:
  assumes "check_inconclusive fl w"
    and "Ping w c = (Ok ping, tp)"
    and "net_LookupHost w (dotjoin (ddSubdomain fl) (Domain (Config c))) = Inr addrs"
    and "YourIP ping \<in> set addrs"
  shows "doDynDNSUpdate fl w c records
           = (NoUpdate MatchesPublicDNS,
              check_trace fl
              @ [ping_request c, LookupHost (dotjoin (ddSubdomain fl) (Domain (Config c)))])
       \<and> writes (snd (doDynDNSUpdate fl w c records)) = []"
  using assms(4)
  by (simp add: doDynDNSUpdate_after_lookup [OF assms(1-3)] Let_def writes_def check_trace_def)

theorem dns_match_skips_witness:
  "doDynDNSUpdate (example_flags '''' ''http://www.example.com/'')
     (example_world refused ''1.2.3.4'' [] [''5.6.7.8'', ''1.2.3.4'']) example_client []
   = (NoUpdate MatchesPublicDNS,
      [HttpGet ''http://www.example.com/'', ping_request example_client,
       LookupHost ''www.example.com''])"
proof -
  let ?fl = "example_flags '''' ''http://www.example.com/''"
  let ?w = "example_world refused ''1.2.3.4'' [] [''5.6.7.8'', ''1.2.3.4'']"
  let ?ping = "\<lparr>Status = ''SUCCESS'', Message = '''', YourIP = ''1.2.3.4''\<rparr>"
  have h1: "check_inconclusive ?fl ?w" by (rule example_check)
  have h2: "Ping ?w example_client = (Ok ?ping, [ping_request example_client])"
    by (rule example_Ping)
  have h3: "net_LookupHost ?w (dotjoin (ddSubdomain ?fl) (Domain (Config example_client)))
              = Inr [''5.6.7.8'', ''1.2.3.4'']"
    by (rule example_lookup)
  have h4: "YourIP ?ping \<in> set [''5.6.7.8'', ''1.2.3.4'']" by simp
  from dns_match_skips [OF h1 h2 h3 h4, of "[]"]
  show ?thesis
    by (simp add: check_trace_def example_flags_def example_client_def dotjoin_def)
qed


section \<open>The address check before the write\<close>

text \<open>
  When the run reaches the check of lines 124-127 with an address that \<open>is_IPv4\<close> refuses,
  it ends in the fatal error of line 126 and has written nothing.
\<close>

lemma invalid_IP_aborts:
  assumes "check_inconclusive fl w"
    and "Ping w c = (Ok ping, tp)"
    and "net_LookupHost w (dotjoin (ddSubdomain fl) (Domain (Config c))) = Inr addrs"
    and "YourIP ping \<notin> set addrs"
    and "\<not> recordExists records ''A'' (dotjoin (ddSubdomain fl) (Domain (Config c))) (YourIP ping)"
    and "\<not> is_IPv4 (YourIP ping)"
  shows "doDynDNSUpdate fl w c records
           = (Fatal (NotAValidIPv4 (YourIP ping)),
              check_trace fl
              @ [ping_request c, LookupHost (dotjoin (ddSubdomain fl) (Domain (Config c)))])
       \<and> writes (snd (doDynDNSUpdate fl w c records)) = []"
  using assms(4-6)
  by (simp add: doDynDNSUpdate_after_lookup [OF assms(1-3)] Let_def writes_def check_trace_def)

text \<open>The two examples of the specification, \<open>300.1.1.1\<close> and an IPv6 literal, are refused.\<close>

lemma out_of_range_quad_aborts:
  "doDynDNSUpdate (example_flags '''' '''')
     (example_world refused ''300.1.1.1'' [] [''5.6.7.8'']) example_client []
   = (Fatal (NotAValidIPv4 ''300.1.1.1''),
      [ping_request example_client, LookupHost ''www.example.com''])"
proof -
  let ?fl = "example_flags '''' ''''"
  let ?w = "example_world refused ''300.1.1.1'' [] [''5.6.7.8'']"
  have h1: "check_inconclusive ?fl ?w" by (rule example_no_check)
  note r = doDynDNSUpdate_after_lookup [OF h1 example_Ping example_lookup]
  show ?thesis
    unfolding r
    by (simp add: Let_def is_IPv4_examples check_trace_def example_fields dotjoin_def)
qed

lemma IPv6_literal_aborts:
  "doDynDNSUpdate (example_flags '''' '''')
     (example_world refused ''2001:db8::1'' [] [''5.6.7.8'']) example_client []
   = (Fatal (NotAValidIPv4 ''2001:db8::1''),
      [ping_request example_client, LookupHost ''www.example.com''])"
proof -
  let ?fl = "example_flags '''' ''''"
  let ?w = "example_world refused ''2001:db8::1'' [] [''5.6.7.8'']"
  have h1: "check_inconclusive ?fl ?w" by (rule example_no_check)
  note r = doDynDNSUpdate_after_lookup [OF h1 example_Ping example_lookup]
  show ?thesis
    unfolding r
    by (simp add: Let_def is_IPv4_examples check_trace_def example_fields dotjoin_def)
qed

text \<open>
  C6. A current IP that is not a syntactically valid IPv4 address must end the run in a
  fatal error before any write. The check of lines 124-125 is
  \<open>net.ParseIP(currentIP)\<close> followed by \<open>To4\<close>, and \<open>To4\<close> also accepts the 16-byte form
  of an IPv4-mapped IPv6 address. So when the ping reports the IPv6 literal
  \<open>::ffff:1.2.3.4\<close>, the resolver knows another address and there is no snapshot, the
  run does not abort: it sends the edit request with that literal as the content of the A
  record. The message of line 126, \<open>Not a valid IPv4 address\<close>, names what the check is
  meant to refuse.
\<close>

theorem mapped_IPv6_literal_is_written:
  "doDynDNSUpdate (example_flags '''' '''')
     (example_world refused ''::ffff:1.2.3.4'' [] [''5.6.7.8'']) example_client []
   = (Updated,
      [ping_request example_client, LookupHost ''www.example.com'',
       edit_request example_client ''www'' ''::ffff:1.2.3.4''])"
proof -
  let ?fl = "example_flags '''' ''''"
  let ?w = "example_world refused ''::ffff:1.2.3.4'' [] [''5.6.7.8'']"
  have h1: "check_inconclusive ?fl ?w" by (rule example_no_check)
  note r = doDynDNSUpdate_after_lookup [OF h1 example_Ping example_lookup]
  show ?thesis
    unfolding r
    by (simp add: Let_def is_IPv4_examples example_EditAllA edit_outcome_def check_trace_def
        example_fields dotjoin_def)
qed


section \<open>Two runs in succession\<close>

text \<open>
  C2, as stated: in every environment, the second of two runs with nothing changed in
  between writes nothing. It fails where the first run writes: the resolver still answers
  \<open>5.6.7.8\<close>, no snapshot is passed (no \<open>-print\<close>), and the second run sends the same
  edit request again.
\<close>

theorem second_run_writes_again:
  "run_twice (example_flags '''' '''') example_client
     (example_world refused ''1.2.3.4'' [] [''5.6.7.8'']) []
     (example_world refused ''1.2.3.4'' [] [''5.6.7.8'']) []
   = ((Updated,
       [ping_request example_client, LookupHost ''www.example.com'',
        edit_request example_client ''www'' ''1.2.3.4'']),
      (Updated,
       [ping_request example_client, LookupHost ''www.example.com'',
        edit_request example_client ''www'' ''1.2.3.4'']))"
proof -
  let ?fl = "example_flags '''' ''''"
  let ?w = "example_world refused ''1.2.3.4'' [] [''5.6.7.8'']"
  have h1: "check_inconclusive ?fl ?w" by (rule example_no_check)
  note r = doDynDNSUpdate_after_lookup [OF h1 example_Ping example_lookup]
  show ?thesis
    unfolding run_twice_def r
    by (simp add: Let_def is_IPv4_examples example_EditAllA edit_outcome_def check_trace_def
        example_fields dotjoin_def)
qed

text \<open>In an unchanged environment the second run does what the first did.\<close>

lemma run_twice_unchanged:
  "snd (run_twice fl c w records w records) = fst (run_twice fl c w records w records)"
  by (simp add: run_twice_def)

text \<open>
  C2, amended: the second run writes nothing when the write of the first run has become
  visible to it, that is, when the health check is inconclusive, the ping succeeds, the
  resolver answers, and either the resolver now returns the current IP or the snapshot
  passed to the second run holds an A record with the name and the current IP. The run then
  ends at the DNS comparison, or else at the known-records check.
\<close>

theorem second_run_skips_when_visible:
  assumes "check_inconclusive fl w2"
    and "Ping w2 c = (Ok ping, tp)"
    and "net_LookupHost w2 (dotjoin (ddSubdomain fl) (Domain (Config c))) = Inr addrs"
    and "YourIP ping \<in> set addrs
         \<or> (\<exists>r \<in> set records2. Type r = ''A''
               \<and> Name r = dotjoin (ddSubdomain fl) (Domain (Config c))
               \<and> Content r = YourIP ping)"
  shows "writes (snd (snd (run_twice fl c w1 records1 w2 records2))) = []
       \<and> fst (snd (run_twice fl c w1 records1 w2 records2))
           = NoUpdate (if YourIP ping \<in> set addrs then MatchesPublicDNS else RecordAlreadyExists)"
proof -
  have "YourIP ping \<in> set addrs
      \<or> recordExists records2 ''A'' (dotjoin (ddSubdomain fl) (Domain (Config c))) (YourIP ping)"
    using assms(4) unfolding recordExists_set .
  then show ?thesis
    by (auto simp: run_twice_def doDynDNSUpdate_after_lookup [OF assms(1-3)] Let_def writes_def
        check_trace_def)
qed

theorem second_run_skips_when_visible_witness:
  "fst (snd (run_twice (example_flags ''A'' '''') example_client
     (example_world refused ''1.2.3.4'' [] [''5.6.7.8'']) []
     (example_world refused ''1.2.3.4'' [www_A_record ''1.2.3.4''] [''5.6.7.8''])
       [www_A_record ''1.2.3.4'']))
   = NoUpdate RecordAlreadyExists
   \<and> writes (snd (snd (run_twice (example_flags ''A'' '''') example_client
     (example_world refused ''1.2.3.4'' [] [''5.6.7.8'']) []
     (example_world refused ''1.2.3.4'' [www_A_record ''1.2.3.4''] [''5.6.7.8''])
       [www_A_record ''1.2.3.4'']))) = []"
proof -
  let ?fl = "example_flags ''A'' ''''"
  let ?w2 = "example_world refused ''1.2.3.4'' [www_A_record ''1.2.3.4''] [''5.6.7.8'']"
  let ?ping = "\<lparr>Status = ''SUCCESS'', Message = '''', YourIP = ''1.2.3.4''\<rparr>"
  have h1: "check_inconclusive ?fl ?w2" by (rule example_no_check)
  have h2: "Ping ?w2 example_client = (Ok ?ping, [ping_request example_client])"
    by (rule example_Ping)
  have h3: "net_LookupHost ?w2 (dotjoin (ddSubdomain ?fl) (Domain (Config example_client)))
              = Inr [''5.6.7.8'']"
    by (rule example_lookup)
  have h4: "YourIP ?ping \<in> set [''5.6.7.8'']
         \<or> (\<exists>r \<in> set [www_A_record ''1.2.3.4'']. Type r = ''A''
               \<and> Name r = dotjoin (ddSubdomain ?fl) (Domain (Config example_client))
               \<and> Content r = YourIP ?ping)"
    by (simp add: www_A_record_def example_flags_def example_client_def dotjoin_def)
  from second_run_skips_when_visible [OF h1 h2 h3 h4,
      of "example_world refused ''1.2.3.4'' [] [''5.6.7.8'']" "[]"]
  show ?thesis by simp
qed


section \<open>Properties of the request helper\<close>

lemma Error_includes_body: "sublist b (Error (ResponseStatusBody st b))"
proof -
  have "Error (ResponseStatusBody st b) = (''response status '' @ st @ ''. Body: '') @ b @ '')''"
    by simp
  then show ?thesis by (simp only: sublist_appendI)
qed

lemma sublist_set: "sublist xs ys \<Longrightarrow> set xs \<subseteq> set ys"
  by (auto simp: sublist_def)

text \<open>
  C7, as stated: for a status other than 200 the error returned includes the raw response
  body. It fails when the body cannot be read to its end (lines 82-85): the answer has
  status 502, its body stream carries \<open><html>502</html>\<close> and then breaks, and the error
  returned holds the status and the read error, and no part of the body.
\<close>

theorem unreadable_body_not_in_error:
  "fst (doRequest ((example_world refused ''1.2.3.4'' [] [])\<lparr>http_POST := (\<lambda>u req. Inr bad_gateway)\<rparr>)
          Inr (json_PingResponse (example_world refused ''1.2.3.4'' [] []))
          (JoinPath PorkbunApiV3Ipv4Url [''ping''])
          (PingRequest \<lparr>SecretAPIKey = ''sk1'', APIKey = ''pk1''\<rparr>))
     = Inl (ResponseStatusUnreadable ''502 Bad Gateway'' ''unexpected EOF'')
   \<and> StatusCode bad_gateway \<noteq> 200
   \<and> RespBody bad_gateway = Body ''<html>502</html>'' (Some ''unexpected EOF'')
   \<and> \<not> sublist ''<html>502</html>'' (Error (ResponseStatusUnreadable ''502 Bad Gateway'' ''unexpected EOF''))"
proof -
  have "\<not> set ''<html>502</html>'' \<subseteq> set (Error (ResponseStatusUnreadable ''502 Bad Gateway'' ''unexpected EOF''))"
    by simp
  then have "\<not> sublist ''<html>502</html>'' (Error (ResponseStatusUnreadable ''502 Bad Gateway'' ''unexpected EOF''))"
    using sublist_set by blast
  then show ?thesis by (simp add: doRequest_def example_world_def bad_gateway_def)
qed

text \<open>
  C7, amended. For a call of a client method (the URL is one that \<open>Client.url\<close> returned;
  the request is one of the three request structs, whose encoding cannot fail), the request
  helper returns an error exactly when the transport fails, the status is not 200, or the
  body cannot be decoded. For a status other than 200, the error holds the status text and
  the raw body when the body can be read, and the status text and the read error when it
  cannot. In every case the helper has sent exactly one POST.
\<close>

theorem doRequest_error_cases:
  assumes "url w c elem = Inr u"
  shows "(isl (fst (doRequest w Inr unmarshal u req)) \<longleftrightarrow> request_fails w unmarshal u req)
       \<and> (\<forall>r b. http_POST w u req = Inr r \<and> StatusCode r \<noteq> 200 \<and> ReadAll (RespBody r) = Inr b
             \<longrightarrow> fst (doRequest w Inr unmarshal u req) = Inl (ResponseStatusBody (StatusText r) b)
                 \<and> sublist b (Error (ResponseStatusBody (StatusText r) b)))
       \<and> (\<forall>r e. http_POST w u req = Inr r \<and> StatusCode r \<noteq> 200 \<and> ReadAll (RespBody r) = Inl e
             \<longrightarrow> fst (doRequest w Inr unmarshal u req) = Inl (ResponseStatusUnreadable (StatusText r) e))
       \<and> snd (doRequest w Inr unmarshal u req) = [HttpPost u req]"
proof -
  have n: "NewRequest_URL w u = None" using assms by (auto simp: url_def split: option.splits)
  have 1: "isl (fst (doRequest w Inr unmarshal u req)) \<longleftrightarrow> request_fails w unmarshal u req"
    by (simp add: doRequest_def n request_fails_def split: sum.splits)
  have 2: "fst (doRequest w Inr unmarshal u req) = Inl (ResponseStatusBody (StatusText r) b)"
    if "http_POST w u req = Inr r" "StatusCode r \<noteq> 200" "ReadAll (RespBody r) = Inr b" for r b
    using that by (simp add: doRequest_def n)
  have 3: "fst (doRequest w Inr unmarshal u req) = Inl (ResponseStatusUnreadable (StatusText r) e)"
    if "http_POST w u req = Inr r" "StatusCode r \<noteq> 200" "ReadAll (RespBody r) = Inl e" for r e
    using that by (simp add: doRequest_def n)
  have 4: "snd (doRequest w Inr unmarshal u req) = [HttpPost u req]" by (rule doRequest_trace [OF n])
  from 1 2 3 4 Error_includes_body show ?thesis by blast
qed

theorem doRequest_error_cases_witness:
  "fst (doRequest ((example_world refused ''1.2.3.4'' [] [])\<lparr>http_POST := (\<lambda>u req. Inr server_error)\<rparr>)
          Inr (json_PingResponse (example_world refused ''1.2.3.4'' [] []))
          (JoinPath PorkbunApiV3Ipv4Url [''ping''])
          (PingRequest \<lparr>SecretAPIKey = ''sk1'', APIKey = ''pk1''\<rparr>))
     = Inl (ResponseStatusBody ''500 Internal Server Error'' ''rate limit exceeded'')
   \<and> sublist ''rate limit exceeded''
       (Error (ResponseStatusBody ''500 Internal Server Error'' ''rate limit exceeded''))
   \<and> snd (doRequest ((example_world refused ''1.2.3.4'' [] [])\<lparr>http_POST := (\<lambda>u req. Inr server_error)\<rparr>)
          Inr (json_PingResponse (example_world refused ''1.2.3.4'' [] []))
          (JoinPath PorkbunApiV3Ipv4Url [''ping''])
          (PingRequest \<lparr>SecretAPIKey = ''sk1'', APIKey = ''pk1''\<rparr>))
     = [HttpPost (JoinPath PorkbunApiV3Ipv4Url [''ping''])
          (PingRequest \<lparr>SecretAPIKey = ''sk1'', APIKey = ''pk1''\<rparr>)]"
proof -
  let ?w = "(example_world refused ''1.2.3.4'' [] [])\<lparr>http_POST := (\<lambda>u req. Inr server_error)\<rparr>"
  let ?u = "JoinPath PorkbunApiV3Ipv4Url [''ping'']"
  let ?req = "PingRequest \<lparr>SecretAPIKey = ''sk1'', APIKey = ''pk1''\<rparr>"
  have h1: "url ?w example_client [''ping''] = Inr ?u"
    by (simp add: url_def example_world_def example_client_def)
  have h2: "http_POST ?w ?u ?req = Inr server_error \<and> StatusCode server_error \<noteq> 200
            \<and> ReadAll (RespBody server_error) = Inr ''rate limit exceeded''"
    by (simp add: example_world_def server_error_def)
  note t = doRequest_error_cases [OF h1, of "json_PingResponse (example_world refused ''1.2.3.4'' [] [])" ?req]
  from t have "fst (doRequest ?w Inr (json_PingResponse (example_world refused ''1.2.3.4'' [] [])) ?u ?req)
                 = Inl (ResponseStatusBody (StatusText server_error) ''rate limit exceeded'')
               \<and> sublist ''rate limit exceeded''
                   (Error (ResponseStatusBody (StatusText server_error) ''rate limit exceeded''))"
    using h2 by blast
  moreover from t have "snd (doRequest ?w Inr (json_PingResponse (example_world refused ''1.2.3.4'' [] [])) ?u ?req)
                 = [HttpPost ?u ?req]"
    by blast
  ultimately show ?thesis by (simp add: server_error_def)
qed

end
